theory Spec2Isabelle
  imports Main "HOL-Library.Sublist"
begin

section \<open>Python values\<close>

text \<open>
  A Python \<open>str\<close> is a sequence of Unicode code points, and \<open>len\<close> counts code points.
  A string is therefore a list of code-point numbers; \<open>py_str\<close> gives the string of an
  ASCII literal.
\<close>

type_synonym pystr = "nat list"

definition py_str :: "string \<Rightarrow> pystr" where
  "py_str s = map of_char s"


text \<open>\<open>str(n)\<close> and \<open>f"{n}"\<close> for an integer: its decimal digits.\<close>

fun show_nat :: "nat \<Rightarrow> pystr" where
  "show_nat n = (if n < 10 then [48 + n] else show_nat (n div 10) @ [48 + n mod 10])"

definition show_int :: "int \<Rightarrow> pystr" where
  "show_int i = (if i < 0 then 45 # show_nat (nat (- i)) else show_nat (nat i))"



text \<open>
  The values that reach the model from a decoded JSON payload: \<open>None\<close>, a string or an
  integer. \<open>py_format\<close> is their rendering inside an f-string.
\<close>

datatype pyval = PyNone | PyStr pystr | PyInt int

fun py_format :: "pyval \<Rightarrow> pystr" where
  "py_format PyNone = py_str ''None''"
| "py_format (PyStr s) = s"
| "py_format (PyInt i) = show_int i"

text \<open>
  The exceptions of the model. An exception is a value: \<open>Inl e\<close> of a sum type.
  \<open>ClientError\<close> is any exception of the HTTP library; \<open>OperationalError\<close> is the one
  of \<open>sqlite3\<close>; \<open>NotAStringList\<close> is explained with \<open>json.loads\<close> below.
\<close>

text \<open>
  Text encodings, as the set of code points they can encode. UTF-8 encodes every code
  point but the surrogates; Latin-1 the first 256.
\<close>

definition surrogate :: "nat \<Rightarrow> bool" where
  "surrogate c = (55296 \<le> c \<and> c \<le> 57343)"

definition utf_8 :: "nat \<Rightarrow> bool" where
  "utf_8 c = (c < 1114112 \<and> \<not> surrogate c)"


datatype py_error =
    JSONDecodeError
  | NotAStringList
  | TypeError
  | AttributeError
  | ValueError
  | ClientError
  | OverflowError
  | UnicodeEncodeError
  | OperationalError

section \<open>The json module, for lists of strings\<close>

text \<open>
  The store keeps a photo list as the text \<open>json.dumps(photos)\<close> and reads it back with
  \<open>json.loads\<close>. \<open>json.dumps\<close> (with its default \<open>ensure_ascii\<close>) writes a string
  between double quotes: a backslash, a double quote and the control characters with a
  short form get their two-character escape; the printable ASCII characters stand for
  themselves; every other code point below \<open>0x10000\<close> becomes \<open>\uXXXX\<close> with four
  lower-case hexadecimal digits; a code point from \<open>0x10000\<close> on becomes the two escapes
  of its UTF-16 surrogate pair. The items of a list are joined by a comma and a space.
\<close>

definition hexdigit :: "nat \<Rightarrow> nat" where
  "hexdigit d = (if d < 10 then 48 + d else 87 + d)"

definition hex4 :: "nat \<Rightarrow> pystr" where
  "hex4 n = [hexdigit (n div 4096 mod 16), hexdigit (n div 256 mod 16),
             hexdigit (n div 16 mod 16), hexdigit (n mod 16)]"

definition u_escape :: "nat \<Rightarrow> pystr" where
  "u_escape n = [92, 117] @ hex4 n"

definition escape_char :: "nat \<Rightarrow> pystr" where
  "escape_char c =
     (if c = 92 then [92, 92]
      else if c = 34 then [92, 34]
      else if c = 8 then [92, 98]
      else if c = 12 then [92, 102]
      else if c = 10 then [92, 110]
      else if c = 13 then [92, 114]
      else if c = 9 then [92, 116]
      else if 32 \<le> c \<and> c \<le> 126 then [c]
      else if c < 65536 then u_escape c
      else u_escape (55296 + (c - 65536) div 1024 mod 1024)
         @ u_escape (56320 + (c - 65536) mod 1024))"

definition encode_basestring_ascii :: "pystr \<Rightarrow> pystr" where
  "encode_basestring_ascii s = [34] @ concat (map escape_char s) @ [34]"

fun join_items :: "pystr list \<Rightarrow> pystr" where
  "join_items [] = []"
| "join_items [x] = x"
| "join_items (x # y # ys) = x @ [44, 32] @ join_items (y # ys)"

definition json_dumps :: "pystr list \<Rightarrow> pystr" where
  "json_dumps xs = [91] @ join_items (map encode_basestring_ascii xs) @ [93]"

text \<open>
  \<open>json.loads\<close>, for the documents the store writes: arrays of strings. The decoder
  skips blanks, reads \<open>[\<close>, then strings separated by commas, then \<open>]\<close>, and refuses
  anything after it. Inside a string, \<open>\uXXXX\<close> takes four hexadecimal digits of either
  case; when the escape is a high surrogate and another \<open>\u\<close> escape follows whose value
  is a low surrogate, the two are combined into one code point. Where an array or one
  of its items has to start and something else than \<open>[\<close> or a double quote stands, the
  result is \<open>NotAStringList\<close>: the document is outside the part of the decoder
  modelled here, and \<open>json.loads\<close> either raises \<open>JSONDecodeError\<close> on it or returns
  a value that is not a list of strings.
\<close>

definition hexval :: "nat \<Rightarrow> nat option" where
  "hexval c =
     (if 48 \<le> c \<and> c \<le> 57 then Some (c - 48)
      else if 97 \<le> c \<and> c \<le> 102 then Some (c - 87)
      else if 65 \<le> c \<and> c \<le> 70 then Some (c - 55)
      else None)"

definition decode_uXXXX :: "nat \<Rightarrow> nat \<Rightarrow> nat \<Rightarrow> nat \<Rightarrow> nat option" where
  "decode_uXXXX a b c d =
     (case (hexval a, hexval b, hexval c, hexval d) of
        (Some p, Some q, Some r, Some s) \<Rightarrow> Some (4096 * p + 256 * q + 16 * r + s)
      | _ \<Rightarrow> None)"

definition backslash :: "nat \<Rightarrow> nat option" where
  "backslash e =
     (if e = 34 then Some 34 else if e = 92 then Some 92 else if e = 47 then Some 47
      else if e = 98 then Some 8 else if e = 102 then Some 12 else if e = 110 then Some 10
      else if e = 114 then Some 13 else if e = 116 then Some 9 else None)"

definition high_surrogate :: "nat \<Rightarrow> bool" where
  "high_surrogate c = (55296 \<le> c \<and> c \<le> 56319)"

definition low_surrogate :: "nat \<Rightarrow> bool" where
  "low_surrogate c = (56320 \<le> c \<and> c \<le> 57343)"

text \<open>The text after \<open>\u\<close>: one code point and the rest of the input.\<close>

definition unicode_escape :: "pystr \<Rightarrow> py_error + (nat \<times> pystr)" where
  "unicode_escape es =
     (case es of
        x1 # x2 # x3 # x4 # rest \<Rightarrow>
          (case decode_uXXXX x1 x2 x3 x4 of
             None \<Rightarrow> Inl JSONDecodeError
           | Some uni \<Rightarrow>
               if high_surrogate uni \<and> take 2 rest = [92, 117] then
                 (case drop 2 rest of
                    y1 # y2 # y3 # y4 # rest2 \<Rightarrow>
                      (case decode_uXXXX y1 y2 y3 y4 of
                         None \<Rightarrow> Inl JSONDecodeError
                       | Some uni2 \<Rightarrow>
                           if low_surrogate uni2
                           then Inr (65536 + ((uni - 55296) * 1024 + (uni2 - 56320)), rest2)
                           else Inr (uni, rest))
                  | _ \<Rightarrow> Inl JSONDecodeError)
               else Inr (uni, rest))
      | _ \<Rightarrow> Inl JSONDecodeError)"

text \<open>The text after a backslash.\<close>

definition escape :: "pystr \<Rightarrow> py_error + (nat \<times> pystr)" where
  "escape cs =
     (case cs of
        [] \<Rightarrow> Inl JSONDecodeError
      | e # es \<Rightarrow>
          if e = 117 then unicode_escape es
          else (case backslash e of
                  None \<Rightarrow> Inl JSONDecodeError
                | Some ch \<Rightarrow> Inr (ch, es)))"

definition emit :: "nat \<Rightarrow> py_error + (pystr \<times> pystr) \<Rightarrow> py_error + (pystr \<times> pystr)" where
  "emit ch r = (case r of Inl e \<Rightarrow> Inl e | Inr (v, rest) \<Rightarrow> Inr (ch # v, rest))"

text \<open>
  The text after the opening quote of a string: the decoded string and the input after
  its closing quote. A raw control character is refused (the decoder is strict).
\<close>

function scanstring :: "pystr \<Rightarrow> py_error + (pystr \<times> pystr)" where
  "scanstring [] = Inl JSONDecodeError"
| "scanstring (c # cs) =
     (if c = 34 then Inr ([], cs)
      else if c = 92 then
        (case escape cs of
           Inl e \<Rightarrow> Inl e
         | Inr (ch, rest) \<Rightarrow> emit ch (scanstring rest))
      else if c < 32 then Inl JSONDecodeError
      else emit c (scanstring cs))"
  by pat_completeness auto
termination
proof -
  have u: "length rest < length es" if "unicode_escape es = Inr (ch, rest)" for es ch rest
    using that unfolding unicode_escape_def
    by (auto split: list.splits option.splits if_splits dest!: arg_cong[where f=length])
  have e: "length rest < length cs" if "escape cs = Inr (ch, rest)" for cs ch rest
    using that unfolding escape_def
    by (auto split: list.splits option.splits if_splits dest: u)
  show ?thesis
    by (relation "measure length") (auto dest: e)
qed

definition is_json_ws :: "nat \<Rightarrow> bool" where
  "is_json_ws c = (c = 32 \<or> c = 9 \<or> c = 10 \<or> c = 13)"

definition skip_ws :: "pystr \<Rightarrow> pystr" where
  "skip_ws s = dropWhile is_json_ws s"

text \<open>The items of a non-empty array, from the first character of an item on.\<close>

function parse_elems :: "pystr \<Rightarrow> py_error + (pystr list \<times> pystr)" where
  "parse_elems s =
     (case s of
        [] \<Rightarrow> Inl JSONDecodeError
      | c # r \<Rightarrow>
          if c \<noteq> 34 then Inl NotAStringList
          else
            (case scanstring r of
               Inl e \<Rightarrow> Inl e
             | Inr (v, rest) \<Rightarrow>
                 (case skip_ws rest of
                    [] \<Rightarrow> Inl JSONDecodeError
                  | d # rest' \<Rightarrow>
                      if d = 93 then Inr ([v], rest')
                      else if d = 44 then
                        (case parse_elems (skip_ws rest') of
                           Inl e \<Rightarrow> Inl e
                         | Inr (vs, r') \<Rightarrow> Inr (v # vs, r'))
                      else Inl JSONDecodeError)))"
  by pat_completeness auto
termination
proof -
  have e: "length rest < length cs" if "escape cs = Inr (ch, rest)" for cs ch rest
    using that unfolding escape_def unicode_escape_def
    by (auto split: list.splits option.splits if_splits dest!: arg_cong[where f=length])
  have shorter: "length r < length s" if "scanstring s = Inr (v, r)" for s v r
    using that
  proof (induction s arbitrary: v r rule: scanstring.induct)
    case 1
    then show ?case by simp
  next
    case (2 c cs)
    show ?case
    proof (cases "c = 34")
      case True
      with "2.prems" show ?thesis by simp
    next
      case n34: False
      show ?thesis
      proof (cases "c = 92")
        case True
        then obtain ch rest where esc: "escape cs = Inr (ch, rest)"
          using "2.prems" by (auto split: sum.splits)
        then obtain v' where "scanstring rest = Inr (v', r)"
          using "2.prems" True by (auto simp: emit_def split: sum.splits)
        then have "length r < length rest"
          using "2.IH"(1)[OF n34 True esc refl] by simp
        with e[OF esc] show ?thesis by simp
      next
        case False
        then obtain v' where "scanstring cs = Inr (v', r)"
          using "2.prems" n34 by (auto simp: emit_def split: sum.splits if_splits)
        then have "length r < length cs"
          using "2.IH"(2) n34 False "2.prems" by (auto split: if_splits)
        then show ?thesis by simp
      qed
    qed
  qed
  show ?thesis
  proof (relation "measure length")
    show "wf (measure length)" by simp
  next
    fix s :: pystr and c r x v rest d rest'
    assume a: "s = c # r" "scanstring r = Inr x" "(v, rest) = x" "skip_ws rest = d # rest'"
    have "length (skip_ws rest') \<le> length rest'"
      by (simp add: skip_ws_def length_dropWhile_le)
    moreover have "length (d # rest') \<le> length rest"
      using a(4)[symmetric] by (simp add: skip_ws_def length_dropWhile_le)
    moreover have "length rest < length r"
      using a(2,3) shorter by auto
    ultimately show "(skip_ws rest', s) \<in> measure length"
      using a(1) by simp
  qed
qed

declare parse_elems.simps [simp del]

definition parse_array :: "pystr \<Rightarrow> py_error + (pystr list \<times> pystr)" where
  "parse_array s =
     (case skip_ws s of
        [] \<Rightarrow> Inl JSONDecodeError
      | c # r \<Rightarrow> if c = 93 then Inr ([], r) else parse_elems (c # r))"

definition json_loads :: "pystr \<Rightarrow> py_error + pystr list" where
  "json_loads s =
     (if take 1 s = [65279] then Inl JSONDecodeError
      else
        (case skip_ws s of
           [] \<Rightarrow> Inl JSONDecodeError
         | c # r \<Rightarrow>
             if c \<noteq> 91 then Inl NotAStringList
             else
               (case parse_array r of
                  Inl e \<Rightarrow> Inl e
                | Inr (vs, rest) \<Rightarrow>
                    if skip_ws rest = [] then Inr vs else Inl JSONDecodeError)))"



section \<open>pathlib\<close>

text \<open>
  A POSIX \<open>Path\<close> is a root (empty, \<open>/\<close> or \<open>//\<close>) and the list of its parts: the
  pieces between slashes, without the empty pieces and without \<open>.\<close>. Joining with \<open>/\<close>
  appends the parts of the right operand, unless that one is absolute and replaces the
  left one. \<open>str\<close> of a path with no root and no part is \<open>.\<close>.
\<close>

fun split_on :: "nat \<Rightarrow> pystr \<Rightarrow> pystr list" where
  "split_on sep [] = [[]]"
| "split_on sep (c # cs) =
     (if c = sep then [] # split_on sep cs
      else (case split_on sep cs of
              [] \<Rightarrow> [[c]]
            | p # ps \<Rightarrow> (c # p) # ps))"

definition posix_root :: "pystr \<Rightarrow> pystr" where
  "posix_root s =
     (if take 2 s = [47, 47] \<and> take 3 s \<noteq> [47, 47, 47] then [47, 47]
      else if take 1 s = [47] then [47]
      else [])"

type_synonym path = "pystr \<times> pystr list"

definition Path :: "pystr \<Rightarrow> path" where
  "Path s = (posix_root s, filter (\<lambda>p. p \<noteq> [] \<and> p \<noteq> [46]) (split_on 47 s))"

definition path_div :: "path \<Rightarrow> pystr \<Rightarrow> path" where
  "path_div p name =
     (case Path name of
        (r, ps) \<Rightarrow> if r \<noteq> [] then (r, ps) else (fst p, snd p @ ps))"

fun join_parts :: "pystr list \<Rightarrow> pystr" where
  "join_parts [] = []"
| "join_parts [x] = x"
| "join_parts (x # y # ys) = x @ [47] @ join_parts (y # ys)"

definition path_str :: "path \<Rightarrow> pystr" where
  "path_str p = (if fst p = [] \<and> snd p = [] then [46] else fst p @ join_parts (snd p))"

section \<open>The job store (database.py)\<close>

text \<open>
  The two tables of the SQLite file. A nullable \<open>TEXT\<close> column is an option, \<open>NULL\<close>
  being \<open>None\<close>. \<open>jobs\<close> holds its rows in insertion order; \<open>sqlite_sequence\<close> is the
  largest id the \<open>AUTOINCREMENT\<close> key has given out. \<open>user_sessions\<close> is keyed by its
  primary key \<open>user_id\<close>, so it is a map from that column to the rest of the row.
  \<open>CURRENT_TIMESTAMP\<close> is the argument \<open>now\<close> of each operation. Every operation runs in a
  transaction of its own on a fresh connection, so it is a function from the database
  before to the database after. \<open>create_job\<close>, which takes a prompt and ids from outside,
  has the failures of binding them as results: an integer outside the signed 64-bit
  range raises \<open>OverflowError\<close>, and a string that UTF-8 cannot encode raises
  \<open>UnicodeEncodeError\<close>; so has it the failure of a key that is used up. The transaction
  is rolled back then, so the database stays as it was. Failures of the file and the
  disk are not part of the model.
\<close>

type_synonym timestamp = nat

record job =
  job_id :: int
  job_user_id :: int
  job_chat_id :: int
  job_photos :: "pystr option"
  job_prompt :: "pystr option"
  job_status :: "pystr option"
  seedance_job_id :: "pystr option"
  video_path :: "pystr option"
  created_at :: timestamp
  completed_at :: "timestamp option"
  error_message :: "pystr option"

record user_session =
  state :: "pystr option"
  photos :: "pystr option"
  current_prompt :: "pystr option"
  last_job_id :: "int option"
  updated_at :: timestamp

record database =
  jobs :: "job list"
  sqlite_sequence :: int
  user_sessions :: "int \<rightharpoonup> user_session"

text \<open>The id of the next inserted job: one more than every id used so far.\<close>

definition lastrowid :: "database \<Rightarrow> int" where
  "lastrowid db = fold max (map job_id (jobs db)) (sqlite_sequence db) + 1"

definition sqlite_integer :: "int \<Rightarrow> bool" where
  "sqlite_integer i = (- 9223372036854775808 \<le> i \<and> i \<le> 9223372036854775807)"

text \<open>
  \<open>create_job\<close>. The parameters are bound in the order of the statement: the two ids,
  the photo list as JSON text (ASCII, so it never fails), the prompt.
\<close>

definition create_job ::
  "database \<Rightarrow> timestamp \<Rightarrow> int \<Rightarrow> int \<Rightarrow> pystr list \<Rightarrow> pystr
     \<Rightarrow> py_error + (int \<times> database)" where
  "create_job db now uid cid photo_list prompt_text =
     (if \<not> sqlite_integer uid \<or> \<not> sqlite_integer cid then Inl OverflowError
      else if \<not> list_all utf_8 prompt_text then Inl UnicodeEncodeError
      else if \<not> sqlite_integer (lastrowid db) then Inl OperationalError
      else
        (let new_id = lastrowid db;
             row = \<lparr>job_id = new_id, job_user_id = uid, job_chat_id = cid,
                    job_photos = Some (json_dumps photo_list), job_prompt = Some prompt_text,
                    job_status = Some (py_str ''pending''), seedance_job_id = None,
                    video_path = None, created_at = now, completed_at = None,
                    error_message = None\<rparr>;
             session = \<lparr>state = Some (py_str ''generating''),
                        photos = Some (json_dumps photo_list),
                        current_prompt = Some prompt_text,
                        last_job_id = Some new_id, updated_at = now\<rparr>
         in Inr (new_id,
                 db\<lparr>jobs := jobs db @ [row], sqlite_sequence := new_id,
                    user_sessions := (user_sessions db)(uid \<mapsto> session)\<rparr>)))"

definition get_job :: "database \<Rightarrow> int \<Rightarrow> job option" where
  "get_job db jid = find (\<lambda>j. job_id j = jid) (jobs db)"

text \<open>
  \<open>update_job_status\<close>: the arguments after \<open>status\<close> default to \<open>None\<close>, which SQLite
  binds as \<open>NULL\<close>.
\<close>

definition update_job_status ::
  "database \<Rightarrow> timestamp \<Rightarrow> int \<Rightarrow> pystr \<Rightarrow> pystr option \<Rightarrow> pystr option \<Rightarrow> pystr option
     \<Rightarrow> database" where
  "update_job_status db now jid new_status sjid vpath err =
     db\<lparr>jobs := map (\<lambda>j.
        if job_id j = jid then
          (if new_status = py_str ''completed''
           then j\<lparr>job_status := Some new_status, seedance_job_id := sjid,
                   video_path := vpath, completed_at := Some now, error_message := err\<rparr>
           else j\<lparr>job_status := Some new_status, seedance_job_id := sjid,
                   error_message := err\<rparr>)
        else j) (jobs db)\<rparr>"

definition get_user_session :: "database \<Rightarrow> int \<Rightarrow> user_session option" where
  "get_user_session db uid = user_sessions db uid"




definition clear_user_session :: "database \<Rightarrow> int \<Rightarrow> database" where
  "clear_user_session db uid = db\<lparr>user_sessions := (user_sessions db)(uid := None)\<rparr>"

definition reset_user_generation_state :: "database \<Rightarrow> timestamp \<Rightarrow> int \<Rightarrow> database" where
  "reset_user_generation_state db now uid =
     (case user_sessions db uid of
        None \<Rightarrow> db
      | Some session \<Rightarrow>
          db\<lparr>user_sessions := (user_sessions db)(uid \<mapsto>
             session\<lparr>state := Some (py_str ''idle''), photos := Some (py_str ''[]''),
               current_prompt := Some [], updated_at := now\<rparr>)\<rparr>)"

section \<open>Prompt validation (prompt\_handler.py)\<close>









text \<open>\<open>_init_db\<close> on a new file: two empty tables.\<close>

definition init_db :: database where
  "init_db = \<lparr>jobs = [], sqlite_sequence = 0, user_sessions = Map.empty\<rparr>"

text \<open>
  The handlers read a stored photo list with \<open>json.loads(row.get("photos", "[]"))\<close>. The
  row of a \<open>SELECT *\<close> always has the key, so the default is never taken, and
  \<open>json.loads(None)\<close> raises \<open>TypeError\<close>.
\<close>

definition stored_list :: "pystr option \<Rightarrow> py_error + pystr list" where
  "stored_list column = (case column of None \<Rightarrow> Inl TypeError | Some t \<Rightarrow> json_loads t)"

section \<open>Configuration (config.py)\<close>

text \<open>
  The fields of \<open>Config\<close> the modelled code reads. \<open>video_storage_path\<close> is the text
  handed to \<open>Path(...)\<close> when the configuration is loaded. \<open>text_encoding\<close> is no field
  of \<open>Config\<close>: it is the encoding the process takes from its locale, the one with which
  \<open>write_text\<close> writes when it is given none, as the set of code points it can encode.
  It is kept here with the other settings the process reads from its environment.
\<close>

record config =
  mock_mode :: bool
  video_storage_path :: pystr
  max_photos :: int
  text_encoding :: "nat \<Rightarrow> bool"

section \<open>Photo intake (photo\_handler.py)\<close>











section \<open>The generation client (seedance.py)\<close>

datatype JobStatus = PENDING | PROCESSING | COMPLETED | FAILED

fun JobStatus_value :: "JobStatus \<Rightarrow> pystr" where
  "JobStatus_value PENDING = py_str ''pending''"
| "JobStatus_value PROCESSING = py_str ''processing''"
| "JobStatus_value COMPLETED = py_str ''completed''"
| "JobStatus_value FAILED = py_str ''failed''"

text \<open>The call \<open>JobStatus(value)\<close>: the member with that value, or \<open>ValueError\<close>.\<close>

definition JobStatus_of :: "pyval \<Rightarrow> py_error + JobStatus" where
  "JobStatus_of v =
     (if v = PyStr (py_str ''pending'') then Inr PENDING
      else if v = PyStr (py_str ''processing'') then Inr PROCESSING
      else if v = PyStr (py_str ''completed'') then Inr COMPLETED
      else if v = PyStr (py_str ''failed'') then Inr FAILED
      else Inl ValueError)"

record VideoGenerationRequest =
  prompt :: pystr
  images :: "pystr list"
  resolution :: pystr
  duration :: "int option"
  seed :: "int option"

text \<open>
  The fields \<open>job_id\<close> and \<open>error_message\<close> of the response are \<open>resp_job_id\<close> and
  \<open>resp_error_message\<close> here, the plain names being columns of the jobs table. They hold
  what the provider's payload gave, so they are Python values.
\<close>

record VideoGenerationResponse =
  resp_job_id :: pyval
  status :: JobStatus
  video_url :: "pystr option"
  resp_error_message :: pyval
  progress :: pyval

text \<open>
  An HTTP response: its status code, its body as text, its body decoded by \<open>.json()\<close> (a
  dictionary, or the exception raised when the body is no JSON object) and its body as
  bytes.
\<close>

record http_response =
  http_status :: int
  body_text :: pystr
  body_json :: "py_error + (pystr \<rightharpoonup> pyval)"
  body_content :: "nat list"

definition dict_get :: "(pystr \<rightharpoonup> pyval) \<Rightarrow> pystr \<Rightarrow> pyval \<Rightarrow> pyval" where
  "dict_get d k dflt = (case d k of None \<Rightarrow> dflt | Some v \<Rightarrow> v)"

text \<open>
  The provider, as the client meets it in one run: the answer to the submission, the
  answer to the \<open>n\<close>-th status request (counted from 0), and the answer to a download of
  a given URL. Each is a response or the exception the HTTP library raises.
\<close>

record provider =
  post_generate :: "py_error + http_response"
  get_job_status :: "nat \<Rightarrow> py_error + http_response"
  get_video :: "pystr \<Rightarrow> py_error + http_response"

text \<open>What the client does to the outside: the requests it sends and its sleeps.\<close>

datatype event =
    PostGenerate pystr pystr bool "int option" "int option" "pystr list"
  | GetJob pyval
  | GetVideo pystr
  | Sleep nat

text \<open>The local files (path text to content) and the events so far.\<close>

record world =
  files :: "pystr \<rightharpoonup> nat list"
  events :: "event list"

definition emit_event :: "event \<Rightarrow> world \<Rightarrow> world" where
  "emit_event e w = w\<lparr>events := events w @ [e]\<rparr>"

subsection \<open>The simulated backend\<close>

definition placeholder_text :: "pystr \<Rightarrow> VideoGenerationRequest \<Rightarrow> pystr" where
  "placeholder_text jid request =
     py_str ''MOCK VIDEO PLACEHOLDER'' @
     [10] @
     py_str ''===================='' @
     [10] @
     py_str ''Job ID: '' @
     jid @
     [10] @
     py_str ''Prompt: '' @
     prompt request @
     [10] @
     py_str ''Images: '' @
     show_nat (length (images request)) @
     [10] @
     py_str ''Status: ready (mock mode)'' @
     [10, 10] @
     py_str ''To enable real video generation:'' @
     [10] @
     py_str ''1. Set MOCK_MODE=false in .env'' @
     [10] @
     py_str ''2. Add your Seedance API key'' @
     [10] @
     py_str ''3. Wait until Feb 24 for API access'' @
     [10, 10] @
     py_str ''This placeholder represents where the generated video would be '' @
     py_str ''stored.'' @
     [10]"

text \<open>
  \<open>_mock_generate\<close>; \<open>uuid_hex\<close> is the text \<open>uuid.uuid4().hex\<close> of the run.
  \<open>write_text\<close> opens the file, which creates it empty, and then encodes the text with
  the encoding of the locale: a text that this encoding cannot encode raises
  \<open>UnicodeEncodeError\<close>, which nothing in the client catches, and leaves the file empty.
  A file written as text holds the code points of its text.
\<close>

definition mock_generate ::
  "config \<Rightarrow> pystr \<Rightarrow> VideoGenerationRequest \<Rightarrow> world
     \<Rightarrow> (py_error + VideoGenerationResponse) \<times> world" where
  "mock_generate cfg uuid_hex request w =
     (let jid = py_str ''mock_'' @ take 16 uuid_hex;
          w1 = emit_event (Sleep 1) w;
          placeholder_path = path_div (Path (video_storage_path cfg)) (jid @ py_str ''.mock'')
      in if list_all (text_encoding cfg) (placeholder_text jid request) then
           (Inr \<lparr>resp_job_id = PyStr jid, status = COMPLETED,
                  video_url = Some (path_str placeholder_path),
                  resp_error_message = PyNone, progress = PyInt 100\<rparr>,
            w1\<lparr>files := (files w1)(path_str placeholder_path \<mapsto>
                              placeholder_text jid request)\<rparr>)
         else
           (Inl UnicodeEncodeError,
            w1\<lparr>files := (files w1)(path_str placeholder_path \<mapsto> [])\<rparr>))"

subsection \<open>The live backend\<close>

definition max_attempts :: nat where
  "max_attempts = 60"

text \<open>
  A completed job: the download of the video and the response of the client. When the
  payload has no \<open>video_url\<close>, or one that is not a string, \<open>session.get\<close> raises
  \<open>TypeError\<close> before it sends anything.
\<close>

definition download_video ::
  "config \<Rightarrow> provider \<Rightarrow> pyval \<Rightarrow> (pystr \<rightharpoonup> pyval) \<Rightarrow> world
     \<Rightarrow> (py_error + VideoGenerationResponse) \<times> world" where
  "download_video cfg api jid status_data w =
     (case dict_get status_data (py_str ''video_url'') PyNone of
        PyStr url \<Rightarrow>
          (let w1 = emit_event (GetVideo url) w
           in case get_video api url of
                Inl e \<Rightarrow> (Inl e, w1)
              | Inr video_response \<Rightarrow>
                  if http_status video_response = 200 then
                    (let video_path = path_div (Path (video_storage_path cfg))
                                        (py_format jid @ py_str ''.mp4'');
                         w2 = w1\<lparr>files := (files w1)(path_str video_path \<mapsto>
                                      body_content video_response)\<rparr>
                     in (Inr \<lparr>resp_job_id = jid, status = COMPLETED,
                               video_url = Some (path_str video_path),
                               resp_error_message = PyNone,
                               progress = dict_get status_data (py_str ''progress'') (PyInt 0)\<rparr>,
                         w2))
                  else
                    (Inr \<lparr>resp_job_id = jid, status = COMPLETED, video_url = None,
                           resp_error_message = PyStr (py_str ''Failed to download video''),
                           progress = PyNone\<rparr>, w1))
      | _ \<Rightarrow> (Inl TypeError, w))"

definition timeout_response :: "pyval \<Rightarrow> VideoGenerationResponse" where
  "timeout_response jid =
     \<lparr>resp_job_id = jid, status = FAILED, video_url = None,
      resp_error_message = PyStr (py_str ''Timeout waiting for generation''),
      progress = PyNone\<rparr>"

text \<open>The polling loop, from the attempt counter \<open>attempt\<close> on.\<close>

function poll ::
  "config \<Rightarrow> provider \<Rightarrow> pyval \<Rightarrow> nat \<Rightarrow> world
     \<Rightarrow> (py_error + VideoGenerationResponse) \<times> world" where
  "poll cfg api jid attempt w =
     (if attempt < max_attempts then
        (case get_job_status api attempt of
           Inl e \<Rightarrow> (Inl e, emit_event (GetJob jid) w)
         | Inr status_response \<Rightarrow>
             if http_status status_response = 200 then
               (case body_json status_response of
                  Inl e \<Rightarrow> (Inl e, emit_event (GetJob jid) w)
                | Inr status_data \<Rightarrow>
                    (case JobStatus_of (dict_get status_data (py_str ''status'')
                                          (PyStr (py_str ''pending''))) of
                       Inl e \<Rightarrow> (Inl e, emit_event (GetJob jid) w)
                     | Inr COMPLETED \<Rightarrow>
                         download_video cfg api jid status_data (emit_event (GetJob jid) w)
                     | Inr FAILED \<Rightarrow>
                         (Inr \<lparr>resp_job_id = jid, status = FAILED, video_url = None,
                                resp_error_message = dict_get status_data (py_str ''error'')
                                   (PyStr (py_str ''Unknown error'')),
                                progress = PyNone\<rparr>, emit_event (GetJob jid) w)
                     | Inr _ \<Rightarrow>
                         poll cfg api jid (Suc attempt)
                           (emit_event (Sleep 5) (emit_event (GetJob jid) w))))
             else poll cfg api jid (Suc attempt)
                    (emit_event (Sleep 5) (emit_event (GetJob jid) w)))
      else (Inr (timeout_response jid), w))"
  by pat_completeness auto
termination
  by (relation "measure (\<lambda>(cfg, api, jid, attempt, w). max_attempts - attempt)") auto

declare poll.simps [simp del]

text \<open>
  \<open>_real_generate\<close>. The submission carries the prompt, the resolution, the flag
  \<open>character_consistency\<close>, the duration (a duration of 0 counts as none), the seed and
  the images whose file exists.
\<close>

definition submission :: "VideoGenerationRequest \<Rightarrow> world \<Rightarrow> event" where
  "submission request w =
     PostGenerate (prompt request) (resolution request)
       (length (images request) > 1)
       (if duration request = Some 0 then None else duration request)
       (seed request)
       (filter (\<lambda>p. files w p \<noteq> None) (images request))"

definition real_generate ::
  "config \<Rightarrow> provider \<Rightarrow> VideoGenerationRequest \<Rightarrow> world
     \<Rightarrow> (py_error + VideoGenerationResponse) \<times> world" where
  "real_generate cfg api request w =
     (let w1 = emit_event (submission request w) w
      in case post_generate api of
           Inl e \<Rightarrow> (Inl e, w1)
         | Inr response \<Rightarrow>
             if http_status response \<noteq> 200 then
               (Inr \<lparr>resp_job_id = PyStr [], status = FAILED, video_url = None,
                      resp_error_message =
                        PyStr (py_str ''API error: '' @
     body_text response),
                      progress = PyNone\<rparr>, w1)
             else
               (case body_json response of
                  Inl e \<Rightarrow> (Inl e, w1)
                | Inr result \<Rightarrow>
                    poll cfg api (dict_get result (py_str ''job_id'') PyNone) 0 w1))"

text \<open>\<open>generate_video\<close> chooses the backend by the configuration.\<close>

definition generate_video ::
  "config \<Rightarrow> provider \<Rightarrow> pystr \<Rightarrow> VideoGenerationRequest \<Rightarrow> world
     \<Rightarrow> (py_error + VideoGenerationResponse) \<times> world" where
  "generate_video cfg api uuid_hex request w =
     (if mock_mode cfg
      then mock_generate cfg uuid_hex request w
      else real_generate cfg api request w)"

section \<open>Starting a generation (prompt\_handler.py)\<close>

text \<open>
  What the handler sends to Telegram. \<open>_send_video\<close> catches its own exceptions and only
  talks to Telegram, so it is one event here, with the path it was given.
\<close>

datatype outgoing =
    ReplyText pystr
  | EditText pystr
  | SendVideo "pystr option"
  | SendMessage pystr

text \<open>
  The exceptions that reach the \<open>except\<close> clause of \<open>_start_generation\<close>: one raised by
  the client, carried with its text \<open>str(e)\<close>, and the \<open>NameError\<close> of a name that is
  bound nowhere.
\<close>

datatype raised = Raised pystr | NameError pystr

fun exception_str :: "raised \<Rightarrow> pystr" where
  "exception_str (Raised text) = text"
| "exception_str (NameError name) =
     py_str ''name '' @ [39] @ name @ [39] @ py_str '' is not defined''"

text \<open>
  A Python value bound to a \<open>TEXT\<close> column: \<open>None\<close> is \<open>NULL\<close>, and the column's affinity
  turns an integer into its decimal text.
\<close>

fun bind_text :: "pyval \<Rightarrow> pystr option" where
  "bind_text PyNone = None"
| "bind_text (PyStr s) = Some s"
| "bind_text (PyInt i) = Some (show_int i)"

definition msg_starting :: pystr where
  "msg_starting =
     [127916] @
     py_str '' *Starting video generation...*'' @
     [10, 10, 9203] @
     py_str '' Preparing your images and prompt...'' @
     [10] @
     py_str ''This may take 2-3 minutes.''"

definition msg_generated :: pystr where
  "msg_generated =
     [9989] @
     py_str '' *Video generated successfully!*'' @
     [10, 10] @
     py_str ''Your video is ready. Sending it now...''"

definition msg_done :: pystr where
  "msg_done =
     [127881] @
     py_str '' *Done!* Your AI-generated video has been sent!'' @
     [10, 10] @
     py_str ''Use /generate to create another video, or /templates for ideas.''"

definition msg_generation_failed :: "VideoGenerationResponse \<Rightarrow> pystr" where
  "msg_generation_failed response =
     [10060] @
     py_str '' *Generation failed*'' @
     [10, 10] @
     py_format (resp_error_message response)"

definition msg_error_occurred :: "pystr \<Rightarrow> pystr" where
  "msg_error_occurred error_msg =
     [10060] @
     py_str '' *An error occurred*'' @
     [10, 10] @
     error_msg"

text \<open>
  The \<open>except Exception\<close> clause: the job is marked failed with the text of the exception
  and the session of the user is deleted.
\<close>

definition on_exception ::
  "database \<Rightarrow> timestamp \<Rightarrow> int \<Rightarrow> int \<Rightarrow> raised \<Rightarrow> outgoing list \<Rightarrow> database \<times> outgoing list" where
  "on_exception db now effective_user_id jid e sent =
     (let error_msg = exception_str e;
          db1 = update_job_status db now jid (py_str ''failed'') None None (Some error_msg)
      in (clear_user_session db1 effective_user_id,
          sent @ [EditText (msg_error_occurred error_msg)]))"

text \<open>
  \<open>_start_generation\<close>, with the outcome of \<open>client.generate_video\<close> as an argument: the
  response, or the exception it raised. \<open>now\<close> is the time of the first status update and
  \<open>later\<close> the time of those after the generation. In the branch for a response that is
  not completed, the argument of \<open>clear_user_session\<close> is the name \<open>user_id\<close>, which is
  neither a parameter, nor a local variable of \<open>_start_generation\<close>, nor a global of the
  module: evaluating it raises \<open>NameError\<close> before the call, inside the \<open>try\<close>.
\<close>

definition start_generation ::
  "database \<Rightarrow> timestamp \<Rightarrow> timestamp \<Rightarrow> int \<Rightarrow> int \<Rightarrow> raised + VideoGenerationResponse
     \<Rightarrow> database \<times> outgoing list" where
  "start_generation db now later effective_user_id jid outcome =
     (let sent = [ReplyText msg_starting];
          db1 = update_job_status db now jid (py_str ''generating'') None None None
      in case outcome of
           Inl e \<Rightarrow> on_exception db1 later effective_user_id jid e sent
         | Inr response \<Rightarrow>
             if JobStatus_value (status response) = py_str ''completed'' then
               (let db2 = update_job_status db1 later jid (py_str ''completed'')
                            (bind_text (resp_job_id response)) (video_url response) None;
                    sent2 = sent @ [EditText msg_generated, SendVideo (video_url response),
                                    SendMessage msg_done]
                in (reset_user_generation_state db2 later effective_user_id, sent2))
             else
               (let sent2 = sent @ [EditText (msg_generation_failed response)];
                    db2 = update_job_status db1 later jid (py_str ''failed'') None None
                            (bind_text (resp_error_message response))
                in on_exception db2 later effective_user_id jid
                     (NameError (py_str ''user_id'')) sent2))"

text \<open>
  An answer to a status request after which the loop goes on: a status code other than
  200, or a payload whose status is \<open>pending\<close> (also when the key is missing) or
  \<open>processing\<close>.
\<close>

fun keeps_polling :: "py_error + http_response \<Rightarrow> bool" where
  "keeps_polling (Inl e) = False"
| "keeps_polling (Inr r) =
     (if http_status r = 200 then
        (case body_json r of
           Inl e \<Rightarrow> False
         | Inr d \<Rightarrow>
             (case JobStatus_of (dict_get d (py_str ''status'') (PyStr (py_str ''pending''))) of
                Inr PENDING \<Rightarrow> True
              | Inr PROCESSING \<Rightarrow> True
              | _ \<Rightarrow> False))
      else True)"

text \<open>The events of \<open>n\<close> rounds of the loop: a status request and a sleep of 5 seconds each.\<close>

definition polled :: "pyval \<Rightarrow> nat \<Rightarrow> event list" where
  "polled jid n = concat (replicate n [GetJob jid, Sleep 5])"

section \<open>Example states\<close>

text \<open>
  A store with one pending job of user 7, the same store after that job has completed,
  and a photo list whose only path is a surrogate pair written as two code points.
\<close>

definition example_photos :: "pystr list" where
  "example_photos = [py_str ''photos/7_1700000000_0.jpg'']"

definition example_prompt :: pystr where
  "example_prompt = py_str ''a dog runs on the beach''"

definition example_db :: database where
  "example_db =
     (case create_job init_db 100 7 7 example_photos example_prompt of
        Inr (jid, db) \<Rightarrow> db
      | Inl e \<Rightarrow> init_db)"

definition completed_db :: database where
  "completed_db = update_job_status example_db 102 1 (py_str ''completed'')
     (Some (py_str ''mock_0123456789abcdef'')) (Some (py_str ''videos/mock_0123456789abcdef.mock''))
     (Some (py_str ''low resolution''))"


text \<open>
  Configurations for the two backends (under a UTF-8 locale), a request, a world with no file and no event, and
  providers: one that accepts the submission and reports a given status on every poll,
  and one that refuses the submission. The video of the first is not to be had.
\<close>

definition live_config :: config where
  "live_config = \<lparr>mock_mode = False, video_storage_path = py_str ''./videos'',
     max_photos = 4, text_encoding = utf_8\<rparr>"


definition example_request :: VideoGenerationRequest where
  "example_request = \<lparr>prompt = example_prompt, images = example_photos,
     resolution = py_str ''1080p'', duration = None, seed = None\<rparr>"

definition empty_world :: world where
  "empty_world = \<lparr>files = Map.empty, events = []\<rparr>"

definition accepted :: http_response where
  "accepted = \<lparr>http_status = 200, body_text = [],
     body_json = Inr [py_str ''job_id'' \<mapsto> PyStr (py_str ''job-42'')], body_content = []\<rparr>"

definition status_reply :: "(pystr \<rightharpoonup> pyval) \<Rightarrow> http_response" where
  "status_reply d = \<lparr>http_status = 200, body_text = [], body_json = Inr d, body_content = []\<rparr>"

definition not_found :: http_response where
  "not_found = \<lparr>http_status = 404, body_text = py_str ''gone'',
     body_json = Inl JSONDecodeError, body_content = []\<rparr>"

definition reporting :: "(pystr \<rightharpoonup> pyval) \<Rightarrow> provider" where
  "reporting d = \<lparr>post_generate = Inr accepted,
     get_job_status = (\<lambda>n. Inr (status_reply d)),
     get_video = (\<lambda>url. Inr not_found)\<rparr>"

definition refusing :: provider where
  "refusing = \<lparr>post_generate = Inr \<lparr>http_status = 503, body_text = py_str ''overloaded'',
        body_json = Inl JSONDecodeError, body_content = []\<rparr>,
     get_job_status = (\<lambda>n. Inl ClientError),
     get_video = (\<lambda>url. Inl ClientError)\<rparr>"










section \<open>The round trip through json\<close>

declare show_nat.simps [simp del]

















section \<open>Properties of the job store\<close>

lemma find_map_update:
  assumes "\<And>j. job_id (g j) = job_id j"
  shows "find (\<lambda>j. job_id j = jid) (map (\<lambda>j. if job_id j = jid then g j else j) js)
           = map_option g (find (\<lambda>j. job_id j = jid) js)"
  by (induction js) (simp_all add: assms)

lemma find_map_same_id:
  assumes "\<And>j. job_id (f j) = job_id j"
  shows "find (\<lambda>j. job_id j = k) (map f js) = map_option f (find (\<lambda>j. job_id j = k) js)"
  by (induction js) (simp_all add: assms)

lemma fold_max_ge: "(a::int) \<le> fold max xs a \<and> (\<forall>x \<in> set xs. x \<le> fold max xs a)"
proof (induction xs arbitrary: a)
  case Nil
  then show ?case by simp
next
  case (Cons y ys)
  have "max y a \<le> fold max ys (max y a)" and "\<forall>x\<in>set ys. x \<le> fold max ys (max y a)"
    using Cons.IH[of "max y a"] by simp_all
  then show ?case by auto
qed

lemma lastrowid_fresh: "j \<in> set (jobs db) \<Longrightarrow> job_id j < lastrowid db"
  using fold_max_ge[of "sqlite_sequence db" "map job_id (jobs db)"]
  by (auto simp: lastrowid_def)

lemma find_fresh_append:
  assumes "\<And>j. j \<in> set js \<Longrightarrow> \<not> P j" and "P r"
  shows "find P (js @ [r]) = Some r"
  using assms by (induction js) simp_all

lemma get_job_update_job_status:
  "get_job (update_job_status db now jid st sj vp em) jid =
     map_option (\<lambda>j. if st = py_str ''completed''
           then j\<lparr>job_status := Some st, seedance_job_id := sj,
                   video_path := vp, completed_at := Some now, error_message := em\<rparr>
           else j\<lparr>job_status := Some st, seedance_job_id := sj, error_message := em\<rparr>)
       (get_job db jid)"
  unfolding get_job_def update_job_status_def
  by (simp add: find_map_update)

lemma get_job_update_job_status_other:
  "get_job (update_job_status db now jid st sj vp em) k =
     map_option (\<lambda>j. if job_id j = jid then
          (if st = py_str ''completed''
           then j\<lparr>job_status := Some st, seedance_job_id := sj,
                   video_path := vp, completed_at := Some now, error_message := em\<rparr>
           else j\<lparr>job_status := Some st, seedance_job_id := sj, error_message := em\<rparr>)
        else j)
       (get_job db k)"
  unfolding get_job_def update_job_status_def
  by (simp add: find_map_same_id)

lemma get_job_create_job:
  assumes c: "create_job db now uid cid ps pr = Inr (jid, db')"
  shows "get_job db' jid = Some \<lparr>job_id = jid, job_user_id = uid, job_chat_id = cid,
                 job_photos = Some (json_dumps ps), job_prompt = Some pr,
                 job_status = Some (py_str ''pending''), seedance_job_id = None,
                 video_path = None, created_at = now, completed_at = None,
                 error_message = None\<rparr>"
proof -
  have jid: "jid = lastrowid db"
    using c by (simp add: create_job_def Let_def split: if_splits)
  have fresh: "\<And>j. j \<in> set (jobs db) \<Longrightarrow> \<not> job_id j = jid"
    using lastrowid_fresh[of _ db] jid by fastforce
  have "jobs db' = jobs db @ [\<lparr>job_id = jid, job_user_id = uid, job_chat_id = cid,
                 job_photos = Some (json_dumps ps), job_prompt = Some pr,
                 job_status = Some (py_str ''pending''), seedance_job_id = None,
                 video_path = None, created_at = now, completed_at = None,
                 error_message = None\<rparr>]"
    using c by (auto simp: create_job_def Let_def split: if_splits)
  then show ?thesis
    unfolding get_job_def using fresh by (simp add: find_fresh_append)
qed

lemma utf_8_example_prompt: "list_all utf_8 example_prompt"
  by (simp add: example_prompt_def py_str_def utf_8_def surrogate_def)

lemma create_job_example:
  "create_job init_db 100 7 7 example_photos example_prompt = Inr (1, example_db)"
  by (simp add: example_db_def create_job_def Let_def lastrowid_def init_db_def
      sqlite_integer_def utf_8_example_prompt)

lemma get_job_example_db:
  "get_job example_db 1 = Some \<lparr>job_id = 1, job_user_id = 7, job_chat_id = 7,
                 job_photos = Some (json_dumps example_photos), job_prompt = Some example_prompt,
                 job_status = Some (py_str ''pending''), seedance_job_id = None,
                 video_path = None, created_at = 100, completed_at = None,
                 error_message = None\<rparr>"
proof -
  show ?thesis using create_job_example by (rule get_job_create_job)
qed

lemma get_job_completed_db:
  "get_job completed_db 1 = Some \<lparr>job_id = 1, job_user_id = 7, job_chat_id = 7,
                 job_photos = Some (json_dumps example_photos), job_prompt = Some example_prompt,
                 job_status = Some (py_str ''completed''),
                 seedance_job_id = Some (py_str ''mock_0123456789abcdef''),
                 video_path = Some (py_str ''videos/mock_0123456789abcdef.mock''),
                 created_at = 100, completed_at = Some 102,
                 error_message = Some (py_str ''low resolution'')\<rparr>"
  unfolding completed_db_def get_job_update_job_status get_job_example_db
  by simp

text \<open>
  C2, as amended. \<open>update_job_status\<close> never changes the photos or the prompt of any job,
  and it sets the status of the job it addresses to the status it is given, whatever the
  status was: the store has no check that keeps a completed or failed job in its state.
\<close>

theorem update_job_status_keeps_photos_and_prompt:
  "map_option job_photos (get_job (update_job_status db now jid st sj vp em) k)
     = map_option job_photos (get_job db k) \<and>
   map_option job_prompt (get_job (update_job_status db now jid st sj vp em) k)
     = map_option job_prompt (get_job db k) \<and>
   (get_job db jid = Some j \<longrightarrow>
     map_option job_status (get_job (update_job_status db now jid st sj vp em) jid)
       = Some (Some st))"
proof -
  have "map_option job_photos (get_job (update_job_status db now jid st sj vp em) k)
     = map_option job_photos (get_job db k)"
    unfolding get_job_update_job_status_other by (cases "get_job db k") simp_all
  moreover have "map_option job_prompt (get_job (update_job_status db now jid st sj vp em) k)
     = map_option job_prompt (get_job db k)"
    unfolding get_job_update_job_status_other by (cases "get_job db k") simp_all
  moreover have "get_job db jid = Some j \<longrightarrow>
     map_option job_status (get_job (update_job_status db now jid st sj vp em) jid)
       = Some (Some st)"
    unfolding get_job_update_job_status by simp
  ultimately show ?thesis by blast
qed

theorem update_job_status_keeps_photos_and_prompt_witness:
  "map_option job_photos (get_job
       (update_job_status example_db 101 1 (py_str ''generating'') None None None) 1)
     = Some (Some (json_dumps example_photos)) \<and>
   map_option job_prompt (get_job
       (update_job_status example_db 101 1 (py_str ''generating'') None None None) 1)
     = Some (Some example_prompt) \<and>
   map_option job_status (get_job
       (update_job_status example_db 101 1 (py_str ''generating'') None None None) 1)
     = Some (Some (py_str ''generating''))"
  using update_job_status_keeps_photos_and_prompt[of example_db 101 1 "py_str ''generating''"
      None None None 1]
  by (simp add: get_job_example_db)

text \<open>
  The claim as stated fails: a completed job is moved back to \<open>pending\<close>.
\<close>

theorem completed_job_leaves_terminal_state:
  "map_option job_status (get_job completed_db 1) = Some (Some (py_str ''completed'')) \<and>
   map_option job_status (get_job
       (update_job_status completed_db 103 1 (py_str ''pending'') None None None) 1)
     = Some (Some (py_str ''pending'')) \<and>
   py_str ''pending'' \<noteq> py_str ''completed''"
  unfolding get_job_update_job_status get_job_completed_db
  by (simp add: py_str_def)

text \<open>
  C10. For an existing job and a status other than \<open>completed\<close>, \<open>update_job_status\<close>
  called without a provider job id and without an error message stores \<open>NULL\<close> in
  \<open>seedance_job_id\<close> and in \<open>error_message\<close>, sets the status, and leaves every other
  column of the row as it was, \<open>video_path\<close> and \<open>completed_at\<close> among them.
\<close>

theorem update_job_status_omitted_arguments:
  assumes "get_job db jid = Some j" and "st \<noteq> py_str ''completed''"
  shows "get_job (update_job_status db now jid st None vp None) jid =
           Some (j\<lparr>job_status := Some st, seedance_job_id := None, error_message := None\<rparr>)"
  using assms by (simp add: get_job_update_job_status)

theorem update_job_status_omitted_arguments_witness:
  "get_job (update_job_status completed_db 103 1 (py_str ''failed'') None None None) 1 =
     Some \<lparr>job_id = 1, job_user_id = 7, job_chat_id = 7,
           job_photos = Some (json_dumps example_photos), job_prompt = Some example_prompt,
           job_status = Some (py_str ''failed''), seedance_job_id = None,
           video_path = Some (py_str ''videos/mock_0123456789abcdef.mock''),
           created_at = 100, completed_at = Some 102, error_message = None\<rparr>"
proof -
  have "py_str ''failed'' \<noteq> py_str ''completed''" by (simp add: py_str_def)
  from update_job_status_omitted_arguments[OF get_job_completed_db this, of 103 None]
  show ?thesis by simp
qed

text \<open>
  C9. For an existing session row, \<open>reset_user_generation_state\<close> sets the state to
  \<open>idle\<close>, the photos to the empty list (the text \<open>[]\<close>, which \<open>json.loads\<close> reads as
  the empty list) and the prompt to the empty string; \<open>last_job_id\<close> keeps its value.
  Only \<open>updated_at\<close> changes besides.
\<close>

theorem reset_user_generation_state_frame:
  assumes "get_user_session db uid = Some s"
  shows "get_user_session (reset_user_generation_state db now uid) uid =
           Some (s\<lparr>state := Some (py_str ''idle''), photos := Some (py_str ''[]''),
                   current_prompt := Some [], updated_at := now\<rparr>) \<and>
         stored_list (Some (py_str ''[]'')) = Inr []"
  using assms
  by (simp add: get_user_session_def reset_user_generation_state_def stored_list_def
      json_loads_def py_str_def skip_ws_def is_json_ws_def parse_array_def)

theorem reset_user_generation_state_frame_witness:
  "get_user_session (reset_user_generation_state example_db 103 7) 7 =
     Some \<lparr>state = Some (py_str ''idle''), photos = Some (py_str ''[]''),
           current_prompt = Some [], last_job_id = Some 1, updated_at = 103\<rparr>"
proof -
  have s: "get_user_session example_db 7 =
     Some \<lparr>state = Some (py_str ''generating''), photos = Some (json_dumps example_photos),
           current_prompt = Some example_prompt, last_job_id = Some 1, updated_at = 100\<rparr>"
    by (simp add: get_user_session_def example_db_def create_job_def Let_def lastrowid_def
        init_db_def sqlite_integer_def utf_8_example_prompt)
  from reset_user_generation_state_frame[OF s, of 103] show ?thesis by simp
qed





section \<open>Properties of prompt validation\<close>




section \<open>Properties of the generation client\<close>

lemma poll_step:
  assumes "keeps_polling (get_job_status api a)" and "a < max_attempts"
  shows "poll cfg api jid a w
           = poll cfg api jid (Suc a) (emit_event (Sleep 5) (emit_event (GetJob jid) w))"
  using assms
  by (subst poll.simps) (auto split: sum.splits JobStatus.splits)

lemma polled_Suc: "polled jid (Suc n) = polled jid n @ [GetJob jid, Sleep 5]"
  by (induction n) (simp_all add: polled_def)

lemma emit_polled:
  "emit_event (Sleep 5) (emit_event (GetJob jid) (w\<lparr>events := events w @ polled jid n\<rparr>))
     = w\<lparr>events := events w @ polled jid (Suc n)\<rparr>"
  by (simp add: emit_event_def polled_Suc)

lemma poll_run:
  assumes "\<forall>i<n. keeps_polling (get_job_status api i)" and "n \<le> max_attempts"
  shows "poll cfg api jid 0 w = poll cfg api jid n (w\<lparr>events := events w @ polled jid n\<rparr>)"
  using assms
proof (induction n)
  case 0
  then show ?case by (simp add: polled_def)
next
  case (Suc n)
  then have "poll cfg api jid 0 w = poll cfg api jid n (w\<lparr>events := events w @ polled jid n\<rparr>)"
    by simp
  also have "\<dots> = poll cfg api jid (Suc n)
      (emit_event (Sleep 5) (emit_event (GetJob jid) (w\<lparr>events := events w @ polled jid n\<rparr>)))"
    using Suc.prems by (intro poll_step) auto
  finally show ?case by (simp only: emit_polled)
qed

lemma poll_exhausted: "poll cfg api jid max_attempts w = (Inr (timeout_response jid), w)"
  by (subst poll.simps) simp

lemma poll_timeout:
  assumes "\<forall>i<max_attempts. keeps_polling (get_job_status api i)"
  shows "poll cfg api jid 0 w
           = (Inr (timeout_response jid), w\<lparr>events := events w @ polled jid max_attempts\<rparr>)"
  using poll_run[OF assms order_refl] by (simp add: poll_exhausted)

lemma real_generate_accepted:
  assumes "post_generate api = Inr response" and "http_status response = 200"
    and "body_json response = Inr result"
  shows "real_generate cfg api request w
           = poll cfg api (dict_get result (py_str ''job_id'') PyNone) 0
               (emit_event (submission request w) w)"
  using assms by (simp add: real_generate_def)

text \<open>
  C5. When the submission is accepted and every status request is answered by a payload
  whose status is \<open>processing\<close>, the live backend returns a failed response with the
  message \<open>Timeout waiting for generation\<close>, and it has then sent exactly 60 status
  requests, each followed by a sleep of 5 seconds: what it did after the submission is
  60 rounds of request and sleep, no more and no fewer.
\<close>

theorem live_backend_times_out_after_max_attempts:
  assumes "\<not> mock_mode cfg"
    and "post_generate api = Inr response" and "http_status response = 200"
    and "body_json response = Inr result"
    and "\<forall>i<60. \<exists>r d. get_job_status api i = Inr r \<and> http_status r = 200
           \<and> body_json r = Inr d
           \<and> d (py_str ''status'') = Some (PyStr (py_str ''processing''))"
  shows "generate_video cfg api uuid_hex request w =
     (Inr \<lparr>resp_job_id = dict_get result (py_str ''job_id'') PyNone, status = FAILED,
            video_url = None,
            resp_error_message = PyStr (py_str ''Timeout waiting for generation''),
            progress = PyNone\<rparr>,
      w\<lparr>events := events w @ [submission request w]
           @ concat (replicate 60 [GetJob (dict_get result (py_str ''job_id'') PyNone), Sleep 5])\<rparr>)"
proof -
  have "\<forall>i<max_attempts. keeps_polling (get_job_status api i)"
  proof (intro allI impI)
    fix i assume "i < max_attempts"
    then obtain r d where "get_job_status api i = Inr r" "http_status r = 200"
        "body_json r = Inr d" "d (py_str ''status'') = Some (PyStr (py_str ''processing''))"
      using assms(5) by (auto simp: max_attempts_def)
    then show "keeps_polling (get_job_status api i)"
      by (simp add: dict_get_def JobStatus_of_def py_str_def)
  qed
  from poll_timeout[OF this] show ?thesis
    using assms(1)
    by (simp add: generate_video_def real_generate_accepted[OF assms(2-4)] timeout_response_def
        polled_def max_attempts_def emit_event_def)
qed

theorem live_backend_times_out_after_max_attempts_witness:
  "generate_video live_config (reporting [py_str ''status'' \<mapsto> PyStr (py_str ''processing'')])
       [] example_request empty_world =
     (Inr \<lparr>resp_job_id = PyStr (py_str ''job-42''), status = FAILED, video_url = None,
            resp_error_message = PyStr (py_str ''Timeout waiting for generation''),
            progress = PyNone\<rparr>,
      \<lparr>files = Map.empty,
       events = submission example_request empty_world
          # concat (replicate 60 [GetJob (PyStr (py_str ''job-42'')), Sleep 5])\<rparr>)"
  using live_backend_times_out_after_max_attempts[of live_config
      "reporting [py_str ''status'' \<mapsto> PyStr (py_str ''processing'')]" accepted
      "[py_str ''job_id'' \<mapsto> PyStr (py_str ''job-42'')]" "[]" example_request empty_world]
  by (simp add: live_config_def reporting_def accepted_def status_reply_def dict_get_def
      empty_world_def)

lemma poll_failed:
  assumes "a < max_attempts" and "get_job_status api a = Inr r" and "http_status r = 200"
    and "body_json r = Inr d"
    and "JobStatus_of (dict_get d (py_str ''status'') (PyStr (py_str ''pending''))) = Inr FAILED"
  shows "poll cfg api jid a w =
     (Inr \<lparr>resp_job_id = jid, status = FAILED, video_url = None,
            resp_error_message = dict_get d (py_str ''error'') (PyStr (py_str ''Unknown error'')),
            progress = PyNone\<rparr>, emit_event (GetJob jid) w)"
  using assms by (subst poll.simps) simp

lemma poll_value_error:
  assumes "a < max_attempts" and "get_job_status api a = Inr r" and "http_status r = 200"
    and "body_json r = Inr d"
    and "JobStatus_of (dict_get d (py_str ''status'') (PyStr (py_str ''pending''))) = Inl ValueError"
  shows "poll cfg api jid a w = (Inl ValueError, emit_event (GetJob jid) w)"
  using assms by (subst poll.simps) simp

text \<open>
  C4, as amended. For the live backend: a submission answered with a status code other
  than 200 gives a failed response whose message is \<open>API error: \<close> followed by the body
  of the answer; 60 status answers after each of which the loop goes on give a failed
  response with the message \<open>Timeout waiting for generation\<close>; the first other answer,
  when it reports \<open>failed\<close>, gives a failed response with the provider's error (or
  \<open>Unknown error\<close>); and when it carries a status value that is none of \<open>pending\<close>,
  \<open>processing\<close>, \<open>completed\<close>, \<open>failed\<close>, the \<open>ValueError\<close> of \<open>JobStatus(...)\<close> leaves
  \<open>generate_video\<close>: the client has no exception handler, its caller has one.
\<close>

theorem live_backend_failures:
  assumes "\<not> mock_mode cfg" and "post_generate api = Inr response"
  shows
   "(http_status response \<noteq> 200 \<longrightarrow>
       fst (generate_video cfg api uuid_hex request w) =
         Inr \<lparr>resp_job_id = PyStr [], status = FAILED, video_url = None,
               resp_error_message = PyStr (py_str ''API error: '' @ body_text response),
               progress = PyNone\<rparr>) \<and>
    (http_status response = 200 \<and> body_json response = Inr result \<longrightarrow>
       ((\<forall>i<60. keeps_polling (get_job_status api i)) \<longrightarrow>
          fst (generate_video cfg api uuid_hex request w) =
            Inr \<lparr>resp_job_id = dict_get result (py_str ''job_id'') PyNone, status = FAILED,
                  video_url = None,
                  resp_error_message = PyStr (py_str ''Timeout waiting for generation''),
                  progress = PyNone\<rparr>) \<and>
       (k < 60 \<and> (\<forall>i<k. keeps_polling (get_job_status api i))
          \<and> get_job_status api k = Inr r \<and> http_status r = 200 \<and> body_json r = Inr d \<longrightarrow>
          (JobStatus_of (dict_get d (py_str ''status'') (PyStr (py_str ''pending''))) = Inr FAILED
             \<longrightarrow> fst (generate_video cfg api uuid_hex request w) =
               Inr \<lparr>resp_job_id = dict_get result (py_str ''job_id'') PyNone, status = FAILED,
                     video_url = None,
                     resp_error_message =
                       dict_get d (py_str ''error'') (PyStr (py_str ''Unknown error'')),
                     progress = PyNone\<rparr>) \<and>
          (JobStatus_of (dict_get d (py_str ''status'') (PyStr (py_str ''pending'')))
               = Inl ValueError
             \<longrightarrow> fst (generate_video cfg api uuid_hex request w) = Inl ValueError)))"
proof -
  let ?jid = "dict_get result (py_str ''job_id'') PyNone"
  let ?w1 = "emit_event (submission request w) w"
  have g: "generate_video cfg api uuid_hex request w = real_generate cfg api request w"
    using assms(1) by (simp add: generate_video_def)
  have refused: "http_status response \<noteq> 200 \<Longrightarrow> ?thesis"
    using assms(2) by (simp add: g real_generate_def)
  have accepted: ?thesis if ok: "http_status response = 200" "body_json response = Inr result"
  proof -
    have start: "real_generate cfg api request w = poll cfg api ?jid 0 ?w1"
      using real_generate_accepted[OF assms(2) ok] .
    have timeout: "fst (real_generate cfg api request w) = Inr (timeout_response ?jid)"
      if "\<forall>i<60. keeps_polling (get_job_status api i)"
      using poll_timeout[of api cfg ?jid ?w1] that by (simp add: start max_attempts_def)
    have run: "real_generate cfg api request w
        = poll cfg api ?jid k (?w1\<lparr>events := events ?w1 @ polled ?jid k\<rparr>)"
      if "k < 60" "\<forall>i<k. keeps_polling (get_job_status api i)"
      using poll_run[of k api cfg ?jid ?w1] that by (simp add: start max_attempts_def)
    have failed: "fst (real_generate cfg api request w) =
               Inr \<lparr>resp_job_id = ?jid, status = FAILED, video_url = None,
                     resp_error_message =
                       dict_get d (py_str ''error'') (PyStr (py_str ''Unknown error'')),
                     progress = PyNone\<rparr>"
      if "k < 60" "\<forall>i<k. keeps_polling (get_job_status api i)"
         "get_job_status api k = Inr r" "http_status r = 200" "body_json r = Inr d"
         "JobStatus_of (dict_get d (py_str ''status'') (PyStr (py_str ''pending''))) = Inr FAILED"
      using that by (simp add: run poll_failed max_attempts_def)
    have raised: "fst (real_generate cfg api request w) = Inl ValueError"
      if "k < 60" "\<forall>i<k. keeps_polling (get_job_status api i)"
         "get_job_status api k = Inr r" "http_status r = 200" "body_json r = Inr d"
         "JobStatus_of (dict_get d (py_str ''status'') (PyStr (py_str ''pending'')))
            = Inl ValueError"
      using that by (simp add: run poll_value_error max_attempts_def)
    show ?thesis
      using ok timeout failed raised by (simp add: g timeout_response_def)
  qed
  show ?thesis
    using refused accepted by (cases "http_status response = 200") auto
qed

theorem live_backend_failures_witness:
  "fst (generate_video live_config refusing [] example_request empty_world) =
     Inr \<lparr>resp_job_id = PyStr [], status = FAILED, video_url = None,
           resp_error_message = PyStr (py_str ''API error: overloaded''),
           progress = PyNone\<rparr> \<and>
   fst (generate_video live_config (reporting Map.empty) [] example_request empty_world) =
     Inr \<lparr>resp_job_id = PyStr (py_str ''job-42''), status = FAILED, video_url = None,
           resp_error_message = PyStr (py_str ''Timeout waiting for generation''),
           progress = PyNone\<rparr> \<and>
   fst (generate_video live_config
          (reporting [py_str ''status'' \<mapsto> PyStr (py_str ''failed''),
                      py_str ''error'' \<mapsto> PyStr (py_str ''content policy'')])
          [] example_request empty_world) =
     Inr \<lparr>resp_job_id = PyStr (py_str ''job-42''), status = FAILED, video_url = None,
           resp_error_message = PyStr (py_str ''content policy''),
           progress = PyNone\<rparr> \<and>
   fst (generate_video live_config (reporting [py_str ''status'' \<mapsto> PyInt 3])
          [] example_request empty_world) = Inl ValueError"
proof -
  have live: "\<not> mock_mode live_config" by (simp add: live_config_def)
  have "fst (generate_video live_config refusing [] example_request empty_world) =
     Inr \<lparr>resp_job_id = PyStr [], status = FAILED, video_url = None,
           resp_error_message = PyStr (py_str ''API error: overloaded''),
           progress = PyNone\<rparr>"
    using live_backend_failures[OF live, of refusing _ "[]" example_request empty_world]
    by (simp add: refusing_def py_str_def)
  moreover have "fst (generate_video live_config (reporting Map.empty) [] example_request
        empty_world) =
     Inr \<lparr>resp_job_id = PyStr (py_str ''job-42''), status = FAILED, video_url = None,
           resp_error_message = PyStr (py_str ''Timeout waiting for generation''),
           progress = PyNone\<rparr>"
    using live_backend_failures[OF live, of "reporting Map.empty" accepted "[]" example_request
        empty_world "[py_str ''job_id'' \<mapsto> PyStr (py_str ''job-42'')]"]
    by (simp add: reporting_def accepted_def status_reply_def dict_get_def JobStatus_of_def)
  moreover have "fst (generate_video live_config
          (reporting [py_str ''status'' \<mapsto> PyStr (py_str ''failed''),
                      py_str ''error'' \<mapsto> PyStr (py_str ''content policy'')])
          [] example_request empty_world) =
     Inr \<lparr>resp_job_id = PyStr (py_str ''job-42''), status = FAILED, video_url = None,
           resp_error_message = PyStr (py_str ''content policy''),
           progress = PyNone\<rparr>"
    using live_backend_failures[OF live, of
        "reporting [py_str ''status'' \<mapsto> PyStr (py_str ''failed''),
                    py_str ''error'' \<mapsto> PyStr (py_str ''content policy'')]"
        accepted "[]" example_request empty_world
        "[py_str ''job_id'' \<mapsto> PyStr (py_str ''job-42'')]" 0
        "status_reply [py_str ''status'' \<mapsto> PyStr (py_str ''failed''),
                    py_str ''error'' \<mapsto> PyStr (py_str ''content policy'')]"
        "[py_str ''status'' \<mapsto> PyStr (py_str ''failed''),
                    py_str ''error'' \<mapsto> PyStr (py_str ''content policy'')]"]
    by (simp add: reporting_def accepted_def status_reply_def dict_get_def JobStatus_of_def
        py_str_def)
  moreover have "fst (generate_video live_config (reporting [py_str ''status'' \<mapsto> PyInt 3])
          [] example_request empty_world) = Inl ValueError"
    using live_backend_failures[OF live, of "reporting [py_str ''status'' \<mapsto> PyInt 3]"
        accepted "[]" example_request empty_world
        "[py_str ''job_id'' \<mapsto> PyStr (py_str ''job-42'')]" 0
        "status_reply [py_str ''status'' \<mapsto> PyInt 3]" "[py_str ''status'' \<mapsto> PyInt 3]"]
    by (simp add: reporting_def accepted_def status_reply_def dict_get_def JobStatus_of_def)
  ultimately show ?thesis by blast
qed

text \<open>
  The claim as stated fails twice. A status payload with the unknown status \<open>queued\<close>
  makes \<open>generate_video\<close> raise \<open>ValueError\<close> instead of returning a failed response. And when
  the provider reports \<open>completed\<close> with a video URL but the download is answered with
  404, the response carries the message \<open>Failed to download video\<close> under the status
  \<open>completed\<close>.
\<close>

theorem unknown_status_raises:
  "fst (generate_video live_config (reporting [py_str ''status'' \<mapsto> PyStr (py_str ''queued'')])
          [] example_request empty_world) = Inl ValueError \<and>
   fst (generate_video live_config
          (reporting [py_str ''status'' \<mapsto> PyStr (py_str ''completed''),
                      py_str ''video_url'' \<mapsto> PyStr (py_str ''https://cdn.example/v.mp4'')])
          [] example_request empty_world) =
     Inr \<lparr>resp_job_id = PyStr (py_str ''job-42''), status = COMPLETED, video_url = None,
           resp_error_message = PyStr (py_str ''Failed to download video''),
           progress = PyNone\<rparr>"
  by (simp add: generate_video_def live_config_def real_generate_def reporting_def accepted_def
      status_reply_def dict_get_def JobStatus_of_def poll.simps[of _ _ _ 0] max_attempts_def
      download_video_def not_found_def py_str_def)











section \<open>Properties of photo intake\<close>





section \<open>Properties of starting a generation\<close>

text \<open>
  What \<open>_start_generation\<close> does with a response that is not completed: the job is first
  marked failed with the message of the response, then the \<open>NameError\<close> is caught and the
  job is marked failed again, with the text of the \<open>NameError\<close>.
\<close>

lemma start_generation_not_completed:
  assumes "status response \<noteq> COMPLETED"
  shows "fst (start_generation db now later uid jid (Inr response)) =
     clear_user_session
       (update_job_status
          (update_job_status
             (update_job_status db now jid (py_str ''generating'') None None None)
             later jid (py_str ''failed'') None None (bind_text (resp_error_message response)))
          later jid (py_str ''failed'') None None
          (Some (py_str ''name '' @ [39] @ py_str ''user_id'' @ [39] @ py_str '' is not defined'')))
       uid"
proof -
  have "JobStatus_value (status response) \<noteq> py_str ''completed''"
    using assms by (cases "status response") (simp_all add: py_str_def)
  then show ?thesis
    by (simp add: start_generation_def on_exception_def Let_def)
qed

text \<open>
  C8, at a response that failed with the client's timeout message. The job ends with the
  status \<open>failed\<close> and the session of the user is deleted, as the claim says; but the
  stored error message is the text of the \<open>NameError\<close>, not the message of the backend.
\<close>

theorem failed_generation_stores_name_error:
  "map_option job_status
     (get_job (fst (start_generation example_db 101 102 7 1
        (Inr (timeout_response (PyStr (py_str ''job-42'')))))) 1)
     = Some (Some (py_str ''failed'')) \<and>
   map_option error_message
     (get_job (fst (start_generation example_db 101 102 7 1
        (Inr (timeout_response (PyStr (py_str ''job-42'')))))) 1)
     = Some (Some (py_str ''name '' @ [39] @ py_str ''user_id'' @ [39] @ py_str '' is not defined'')) \<and>
   get_user_session (fst (start_generation example_db 101 102 7 1
        (Inr (timeout_response (PyStr (py_str ''job-42'')))))) 7 = None \<and>
   py_str ''name '' @ [39] @ py_str ''user_id'' @ [39] @ py_str '' is not defined''
     \<noteq> py_str ''Timeout waiting for generation''"
proof -
  have s: "status (timeout_response (PyStr (py_str ''job-42''))) \<noteq> COMPLETED"
    by (simp add: timeout_response_def)
  have g: "\<And>db. get_job (clear_user_session db 7) 1 = get_job db 1"
    by (simp add: get_job_def clear_user_session_def)
  have u: "\<And>db. get_user_session (clear_user_session db 7) 7 = None"
    by (simp add: get_user_session_def clear_user_session_def)
  show ?thesis
    unfolding start_generation_not_completed[OF s] g u get_job_update_job_status
      get_job_example_db
    by (simp add: py_str_def)
qed

end
